theory Spec2Isabelle
  imports Complex_Main
begin

section \<open>Interstellar dust extinction functions (extinction.pyx)\<close>

text \<open>
  The module computes with C doubles. A double is modelled as a \<^typ>\<open>real\<close>: every
  operation is the exact one, so rounding, overflow and NaN are outside the model
  (the last subsection of the definitions embeds CCM89 once more, with rounding).
  Decimal literals of the source are the same decimal literals here (\<open>0.574\<close> is the
  real number 574/1000). Division in HOL is total (\<open>x / 0 = 0\<close>), which is not what
  the program does; the theorems below therefore speak about a nonzero \<open>r_v\<close> and
  positive wavelengths only, as the source's callers are expected to supply.

  The \<open>cdef\<close> helpers write their two results through the pointers \<open>a\<close> and \<open>b\<close>;
  each of them assigns both on every path, so the model returns the pair \<open>(a, b)\<close>
  and the caller's variables \<open>a\<close>, \<open>b\<close> carry nothing from one sample to the next.
  A 1-d array is a list, and a loop \<open>for i in range(n): result[i] = f(x[i])\<close> is
  \<^const>\<open>map\<close>. The power \<open>x**1.61\<close> is \<^term>\<open>x powr 1.61\<close>, which is the C
  \<open>pow\<close> for \<open>x \<ge> 0\<close>. Names are the source's, without a leading underscore
  (\<open>_f99uv\<close> is \<open>f99uv\<close>, \<open>_XKNOTS\<close> is \<open>XKNOTS\<close>); the methods \<open>__init__\<close> and
  \<open>__call__\<close> of the class are \<open>F99Extinction_init\<close> and \<open>F99Extinction_call\<close>.
\<close>

subsection \<open>Cardelli, Clayton and Mathis (1989)\<close>

definition ccm89ab_ir_invum :: "real \<Rightarrow> real \<times> real" where
  "ccm89ab_ir_invum x = (let y = x powr 1.61 in (0.574 * y, -0.527 * y))"

definition ccm89ab_opt_invum :: "real \<Rightarrow> real \<times> real" where
  "ccm89ab_opt_invum x =
     (let y = x - 1.82 in
      (((((((0.329990*y - 0.77530)*y + 0.01979)*y + 0.72085)*y - 0.02427)*y
             - 0.50447)*y + 0.17699)*y + 1.0,
       ((((((-2.09002*y + 5.30260)*y - 0.62251)*y - 5.38434)*y + 1.07233)*y
             + 2.28305)*y + 1.41338)*y))"

definition ccm89ab_uv_invum :: "real \<Rightarrow> real \<times> real" where
  "ccm89ab_uv_invum x =
     (let y = x - 4.67;
          a = 1.752 - 0.316*x - (0.104 / (y*y + 0.341));
          y = x - 4.62;
          b = -3.090 + 1.825*x + (1.206 / (y*y + 0.263))
      in if x > 5.9 then
           (let y = x - 5.9;
                y2 = y * y;
                y3 = y2 * y
            in (a + (-0.04473*y2 - 0.009779*y3), b + (0.2130*y2 + 0.1207*y3)))
         else (a, b))"

definition ccm89ab_fuv_invum :: "real \<Rightarrow> real \<times> real" where
  "ccm89ab_fuv_invum x =
     (let y = x - 8;
          y2 = y * y;
          y3 = y2 * y
      in (-0.070*y3 + 0.137*y2 - 0.628*y - 1.073,
          0.374*y3 - 0.420*y2 + 4.257*y + 13.670))"

definition ccm89ab_invum :: "real \<Rightarrow> real \<times> real" where
  "ccm89ab_invum x =
     (if x < 1.1 then ccm89ab_ir_invum x
      else if x < 3.3 then ccm89ab_opt_invum x
      else if x < 8 then ccm89ab_uv_invum x
      else ccm89ab_fuv_invum x)"

definition ccm89_invum :: "real list \<Rightarrow> real \<Rightarrow> real \<Rightarrow> real list" where
  "ccm89_invum x a_v r_v =
     map (\<lambda>xi. case ccm89ab_invum xi of (a, b) \<Rightarrow> a_v * (a + b / r_v)) x"

definition ccm89_aa :: "real list \<Rightarrow> real \<Rightarrow> real \<Rightarrow> real list" where
  "ccm89_aa wave a_v r_v =
     map (\<lambda>wi. case ccm89ab_invum (10000 / wi) of (a, b) \<Rightarrow> a_v * (a + b / r_v)) wave"

subsection \<open>O'Donnell (1994)\<close>

definition od94ab_opt_invum :: "real \<Rightarrow> real \<times> real" where
  "od94ab_opt_invum x =
     (let y = x - 1.82 in
      ((((((((-0.505*y + 1.647)*y - 0.827)*y - 1.718)*y + 1.137)*y +
              0.701)*y - 0.609)*y + 0.104)*y + 1.0,
       (((((((3.347*y - 10.805)*y + 5.491)*y + 11.102)*y - 7.985)*y -
              3.989)*y + 2.908)*y + 1.952)*y))"

definition od94ab_invum :: "real \<Rightarrow> real \<times> real" where
  "od94ab_invum x =
     (if x < 1.1 then ccm89ab_ir_invum x
      else if x < 3.3 then od94ab_opt_invum x
      else if x < 8 then ccm89ab_uv_invum x
      else ccm89ab_fuv_invum x)"

definition od94_invum :: "real list \<Rightarrow> real \<Rightarrow> real \<Rightarrow> real list" where
  "od94_invum x a_v r_v =
     map (\<lambda>xi. case od94ab_invum xi of (a, b) \<Rightarrow> a_v * (a + b / r_v)) x"

definition od94_aa :: "real list \<Rightarrow> real \<Rightarrow> real \<Rightarrow> real list" where
  "od94_aa wave a_v r_v =
     map (\<lambda>wi. case od94ab_invum (10000 / wi) of (a, b) \<Rightarrow> a_v * (a + b / r_v)) wave"

subsection \<open>Gordon, Cartledge and Clayton (2009)\<close>

text \<open>
  \<open>gcc09ab_uv_invum\<close> is declared with a \<open>double\<close> result that it never sets and
  that its caller ignores; only the two values written through \<open>a\<close> and \<open>b\<close> are
  modelled. The module has no \<open>gcc09_invum\<close>.
\<close>

definition gcc09ab_uv_invum :: "real \<Rightarrow> real \<times> real" where
  "gcc09ab_uv_invum x =
     (let y = x - 4.57;
          a = 1.896 - 0.372*x - 0.0108 / (y*y + 0.0422);
          y = x - 4.59;
          b = -3.503 + 2.057*x + 0.718 / (y*y + 0.0530*3.1)
      in if x > 5.9 then
           (let y = x - 5.9;
                y2 = y * y;
                y3 = y * y2
            in (a + (-0.110 * y2 - 0.0099 * y3), b + (0.537 * y2 + 0.0530 * y3)))
         else (a, b))"

definition gcc09ab_invum :: "real \<Rightarrow> real \<times> real" where
  "gcc09ab_invum x =
     (if x < 1.1 then ccm89ab_ir_invum x
      else if x < 3.3 then od94ab_opt_invum x
      else gcc09ab_uv_invum x)"

definition gcc09_aa :: "real list \<Rightarrow> real \<Rightarrow> real \<Rightarrow> real list" where
  "gcc09_aa wave a_v r_v =
     map (\<lambda>wi. case gcc09ab_invum (10000 / wi) of (a, b) \<Rightarrow> a_v * (a + b / r_v)) wave"

subsection \<open>Fitzpatrick (1999)\<close>

definition F99_X0 :: real where "F99_X0 = 4.596"
definition F99_GAMMA :: real where "F99_GAMMA = 0.99"
definition F99_C3 :: real where "F99_C3 = 3.23"
definition F99_C4 :: real where "F99_C4 = 0.41"
definition F99_C5 :: real where "F99_C5 = 5.9"
definition F99_X02 :: real where "F99_X02 = F99_X0 * F99_X0"
definition F99_GAMMA2 :: real where "F99_GAMMA2 = F99_GAMMA * F99_GAMMA"

text \<open>\<open>_f99uv\<close>: the analytic function used for the ultraviolet samples.\<close>

definition f99uv :: "real \<Rightarrow> real \<Rightarrow> real \<Rightarrow> real" where
  "f99uv wave a_v r_v =
     (let c2 = -0.824 + 4.717 / r_v;
          c1 = 2.030 - 3.007 * c2;
          x = 10000 / wave;
          x2 = x * x;
          y = x2 - F99_X02;
          d = x2 / (y * y + x2 * F99_GAMMA2);
          k = c1 + c2 * x + F99_C3 * d;
          k = (if x \<ge> F99_C5 then
                 (let y = x - F99_C5;
                      y2 = y * y
                  in k + F99_C4 * (0.5392 * y2 + 0.05644 * y2 * y))
               else k)
      in a_v * (1 + k / r_v))"

text \<open>
  \<open>_f99kknots\<close> reads \<open>xknots[7]\<close> and \<open>xknots[8]\<close>; on a shorter array the
  indexing raises, which the model returns as \<open>Inl IndexError\<close>. The literals
  written with an exponent in the source (\<open>2.13572e-04\<close>, ...) are written out.
\<close>

datatype error = IndexError

definition f99kknots :: "real list \<Rightarrow> real \<Rightarrow> error + real list" where
  "f99kknots xknots r_v =
     (let c2 = -0.824 + 4.717 / r_v;
          c1 = 2.030 - 3.007 * c2;
          rv2 = r_v * r_v
      in if length xknots < 9 then Inl IndexError
         else Inr
          ([- r_v,
            0.26469 * r_v/3.1 - r_v,
            0.82925 * r_v/3.1 - r_v,
            -0.422809 + 1.00270*r_v + 0.000213572*rv2 - r_v,
            -0.0513540 + 1.00216 * r_v - 0.0000735778*rv2 - r_v,
            0.700127 + 1.00184*r_v - 0.0000332598*rv2 - r_v,
            (1.19456 + 1.01707*r_v - 0.00546959*rv2 +
               0.000797809 * rv2 * r_v - 0.0000445636 * rv2*rv2 - r_v)]
           @ map (\<lambda>i. let x2 = xknots ! i * xknots ! i;
                            y = (x2 - F99_X02);
                            d = x2 / (y * y + x2 * F99_GAMMA2)
                        in c1 + c2 * xknots ! i + F99_C3 * d) [7..<9]))"

text \<open>
  The class attribute \<open>_XKNOTS = 1.e4 / np.array([np.inf, 26500., ...])\<close>; the first
  entry, \<open>1e4 / inf\<close>, is 0.
\<close>

definition XKNOTS :: "real list" where
  "XKNOTS = 0 # map (\<lambda>w. 10000 / w) [26500, 12200, 6000, 5470, 4670, 4110, 2700, 2600]"

text \<open>
  An \<open>F99Extinction\<close> object holds \<open>r_v\<close> and \<open>_spline\<close>. The spline is made and
  evaluated by \<open>scipy.interpolate\<close> (\<open>splmake\<close>, \<open>spleval\<close>), which is no part of this
  module: the field holds the function \<open>x \<mapsto> spleval(self._spline, x)\<close>, and the
  constructor takes as its first argument \<open>splmake\<close>, standing for
  \<open>splmake(xk, yk, order=3)\<close> followed by \<open>spleval\<close>.
\<close>

record F99Extinction =
  self_r_v :: real
  self_spline :: "real \<Rightarrow> real"

definition F99Extinction_init ::
    "(real list \<Rightarrow> real list \<Rightarrow> real \<Rightarrow> real) \<Rightarrow> real \<Rightarrow> error + F99Extinction" where
  "F99Extinction_init splmake r_v =
     (case f99kknots XKNOTS r_v of
        Inl e \<Rightarrow> Inl e
      | Inr kknots \<Rightarrow> Inr \<lparr>self_r_v = r_v, self_spline = splmake XKNOTS kknots\<rparr>)"

text \<open>
  \<open>__call__\<close>: the spline is evaluated at every sample, then the loop rescales the
  sample or overwrites it with the analytic value.
\<close>

definition F99Extinction_call :: "F99Extinction \<Rightarrow> real list \<Rightarrow> real \<Rightarrow> real list" where
  "F99Extinction_call self wave a_v =
     (let r_v = self_r_v self;
          ebv = a_v / r_v;
          out = map (self_spline self) (map (\<lambda>w. 10000 / w) wave)
      in map (\<lambda>(wi, ki). if wi > 2700 then ebv * (ki + r_v) else f99uv wi a_v r_v)
           (zip wave out))"

subsection \<open>Fitzpatrick and Massa (2007)\<close>

definition FM07_X0 :: real where "FM07_X0 = 4.592"
definition FM07_GAMMA :: real where "FM07_GAMMA = 0.922"
definition FM07_C1 :: real where "FM07_C1 = -0.175"
definition FM07_C2 :: real where "FM07_C2 = 0.807"
definition FM07_C3 :: real where "FM07_C3 = 2.991"
definition FM07_C4 :: real where "FM07_C4 = 0.319"
definition FM07_C5 :: real where "FM07_C5 = 6.097"
definition FM07_X02 :: real where "FM07_X02 = FM07_X0 * FM07_X0"
definition FM07_GAMMA2 :: real where "FM07_GAMMA2 = FM07_GAMMA * FM07_GAMMA"

definition fm07uv :: "real list \<Rightarrow> real \<Rightarrow> real list" where
  "fm07uv wave a_v =
     map (\<lambda>wi. let x = 10000 / wi;
                    x2 = x * x;
                    y = x2 - FM07_X02;
                    d = x2 / (y*y + x2 * FM07_GAMMA2);
                    k = FM07_C1 + FM07_C2 * x + FM07_C3 * d;
                    k = (if x > FM07_C5 then
                           (let y = x - FM07_C5 in k + FM07_C4 * y * y)
                         else k)
                in a_v * (1 + k / 3.1)) wave"

subsection \<open>CCM89 with the rounding of doubles\<close>

text \<open>
  A second embedding of \<open>ccm89_invum\<close>, for the question whether an equation between
  its results holds in the arithmetic the code runs in. A finite double is the real
  number it denotes. \<open>fl\<close> rounds a real to the nearest number with a 53-bit
  significand, a tie to the even significand (IEEE 754 binary64, round to nearest
  even); the exponent range is not bounded, so overflow, underflow and subnormal
  numbers are outside this model too. Every arithmetic operation of the source is the
  exact operation followed by \<open>fl\<close>, every decimal literal \<open>c\<close> is \<open>fl c\<close>, and nothing is
  fused. The C library's \<open>pow\<close> is a parameter.
\<close>

definition rne :: "real \<Rightarrow> int" where
  "rne x =
     (let f = \<lfloor>x\<rfloor>;
          r = x - of_int f
      in if r < 1/2 then f
         else if 1/2 < r then f + 1
         else if even f then f else f + 1)"

definition fl :: "real \<Rightarrow> real" where
  "fl x =
     (if x = 0 then 0
      else (let e = \<lfloor>log 2 \<bar>x\<bar>\<rfloor> - 52
            in of_int (rne (x / 2 powr of_int e)) * 2 powr of_int e))"

definition fadd :: "real \<Rightarrow> real \<Rightarrow> real" where "fadd a b = fl (a + b)"
definition fsub :: "real \<Rightarrow> real \<Rightarrow> real" where "fsub a b = fl (a - b)"
definition fmul :: "real \<Rightarrow> real \<Rightarrow> real" where "fmul a b = fl (a * b)"
definition fdiv :: "real \<Rightarrow> real \<Rightarrow> real" where "fdiv a b = fl (a / b)"

definition ccm89ab_ir_invum_double :: "(real \<Rightarrow> real \<Rightarrow> real) \<Rightarrow> real \<Rightarrow> real \<times> real" where
  "ccm89ab_ir_invum_double pow x =
     (let y = pow x (fl 1.61) in (fmul (fl 0.574) y, fmul (- fl 0.527) y))"

definition ccm89ab_opt_invum_double :: "real \<Rightarrow> real \<times> real" where
  "ccm89ab_opt_invum_double x =
     (let y = fsub x (fl 1.82) in
      (fadd (fmul (fadd (fmul (fsub (fmul (fsub (fmul (fadd (fmul (fadd (fmul
         (fsub (fmul (fl 0.329990) y) (fl 0.77530)) y) (fl 0.01979)) y) (fl 0.72085)) y)
         (fl 0.02427)) y) (fl 0.50447)) y) (fl 0.17699)) y) (fl 1.0),
       fmul (fadd (fmul (fadd (fmul (fadd (fmul (fsub (fmul (fsub (fmul
         (fadd (fmul (- fl 2.09002) y) (fl 5.30260)) y) (fl 0.62251)) y) (fl 5.38434)) y)
         (fl 1.07233)) y) (fl 2.28305)) y) (fl 1.41338)) y))"

definition ccm89ab_uv_invum_double :: "real \<Rightarrow> real \<times> real" where
  "ccm89ab_uv_invum_double x =
     (let y = fsub x (fl 4.67);
          a = fsub (fsub (fl 1.752) (fmul (fl 0.316) x))
                (fdiv (fl 0.104) (fadd (fmul y y) (fl 0.341)));
          y = fsub x (fl 4.62);
          b = fadd (fadd (- fl 3.090) (fmul (fl 1.825) x))
                (fdiv (fl 1.206) (fadd (fmul y y) (fl 0.263)))
      in if x > fl 5.9 then
           (let y = fsub x (fl 5.9);
                y2 = fmul y y;
                y3 = fmul y2 y
            in (fadd a (fsub (fmul (- fl 0.04473) y2) (fmul (fl 0.009779) y3)),
                fadd b (fadd (fmul (fl 0.2130) y2) (fmul (fl 0.1207) y3))))
         else (a, b))"

definition ccm89ab_fuv_invum_double :: "real \<Rightarrow> real \<times> real" where
  "ccm89ab_fuv_invum_double x =
     (let y = fsub x (fl 8);
          y2 = fmul y y;
          y3 = fmul y2 y
      in (fsub (fsub (fadd (fmul (- fl 0.070) y3) (fmul (fl 0.137) y2)) (fmul (fl 0.628) y))
            (fl 1.073),
          fadd (fadd (fsub (fmul (fl 0.374) y3) (fmul (fl 0.420) y2)) (fmul (fl 4.257) y))
            (fl 13.670)))"

definition ccm89ab_invum_double :: "(real \<Rightarrow> real \<Rightarrow> real) \<Rightarrow> real \<Rightarrow> real \<times> real" where
  "ccm89ab_invum_double pow x =
     (if x < fl 1.1 then ccm89ab_ir_invum_double pow x
      else if x < fl 3.3 then ccm89ab_opt_invum_double x
      else if x < fl 8 then ccm89ab_uv_invum_double x
      else ccm89ab_fuv_invum_double x)"

definition ccm89_invum_double ::
    "(real \<Rightarrow> real \<Rightarrow> real) \<Rightarrow> real list \<Rightarrow> real \<Rightarrow> real \<Rightarrow> real list" where
  "ccm89_invum_double pow x a_v r_v =
     map (\<lambda>xi. case ccm89ab_invum_double pow xi of (a, b) \<Rightarrow> fmul a_v (fadd a (fdiv b r_v))) x"

section \<open>Branch selection\<close>

text \<open>
  The infrared branch returns a pair with a fixed ratio, whatever the power
  \<open>x ** 1.61\<close> is; this tells its result apart from the optical one at 1.1.
\<close>

lemma ccm89ab_ir_invum_ratio:
  assumes "ccm89ab_ir_invum x = (a, b)"
  shows "0.527 * a + 0.574 * b = 0"
  using assms by (auto simp: ccm89ab_ir_invum_def Let_def)

lemma ccm89_opt_is_not_ir: "ccm89ab_opt_invum 1.1 \<noteq> ccm89ab_ir_invum 1.1"
proof
  assume "ccm89ab_opt_invum 1.1 = ccm89ab_ir_invum 1.1"
  then have "ccm89ab_ir_invum 1.1 = (fst (ccm89ab_opt_invum 1.1), snd (ccm89ab_opt_invum 1.1))"
    by simp
  then have "0.527 * fst (ccm89ab_opt_invum 1.1) + 0.574 * snd (ccm89ab_opt_invum 1.1) = 0"
    by (rule ccm89ab_ir_invum_ratio)
  then show False
    by (simp add: ccm89ab_opt_invum_def Let_def)
qed

lemma od94_opt_is_not_ir: "od94ab_opt_invum 1.1 \<noteq> ccm89ab_ir_invum 1.1"
proof
  assume "od94ab_opt_invum 1.1 = ccm89ab_ir_invum 1.1"
  then have "ccm89ab_ir_invum 1.1 = (fst (od94ab_opt_invum 1.1), snd (od94ab_opt_invum 1.1))"
    by simp
  then have "0.527 * fst (od94ab_opt_invum 1.1) + 0.574 * snd (od94ab_opt_invum 1.1) = 0"
    by (rule ccm89ab_ir_invum_ratio)
  then show False
    by (simp add: od94ab_opt_invum_def Let_def)
qed

lemma ccm89_uv_is_not_opt:
  "ccm89ab_uv_invum 3.3 \<noteq> ccm89ab_opt_invum 3.3" "ccm89ab_uv_invum 3.3 \<noteq> od94ab_opt_invum 3.3"
  by (simp_all add: ccm89ab_opt_invum_def od94ab_opt_invum_def ccm89ab_uv_invum_def Let_def)

lemma gcc09_uv_is_not_opt: "gcc09ab_uv_invum 3.3 \<noteq> od94ab_opt_invum 3.3"
  by (simp add: od94ab_opt_invum_def gcc09ab_uv_invum_def Let_def)

lemma ccm89_fuv_is_not_uv: "ccm89ab_fuv_invum 8.0 \<noteq> ccm89ab_uv_invum 8.0"
  by (simp add: ccm89ab_fuv_invum_def ccm89ab_uv_invum_def Let_def)

text \<open>
  C5. CCM89, OD94 and GCC09 compare the wavenumber with a strict \<open><\<close> at each upper
  threshold, so a wavenumber equal to a threshold takes the higher branch: 1.1 the
  optical branch of the law and not the infrared one, 3.3 the ultraviolet branch and
  not the optical one, and 8.0 the far-UV branch for CCM89 and OD94 (GCC09 has no
  far-UV branch and stays in its ultraviolet one). At each threshold the two
  neighbouring branches give different pairs, so the choice shows in the result.
\<close>

theorem threshold_selects_higher_branch:
  "ccm89ab_invum 1.1 = ccm89ab_opt_invum 1.1 \<and> ccm89ab_invum 1.1 \<noteq> ccm89ab_ir_invum 1.1 \<and>
   ccm89ab_invum 3.3 = ccm89ab_uv_invum 3.3 \<and> ccm89ab_invum 3.3 \<noteq> ccm89ab_opt_invum 3.3 \<and>
   ccm89ab_invum 8.0 = ccm89ab_fuv_invum 8.0 \<and> ccm89ab_invum 8.0 \<noteq> ccm89ab_uv_invum 8.0 \<and>
   od94ab_invum 1.1 = od94ab_opt_invum 1.1 \<and> od94ab_invum 1.1 \<noteq> ccm89ab_ir_invum 1.1 \<and>
   od94ab_invum 3.3 = ccm89ab_uv_invum 3.3 \<and> od94ab_invum 3.3 \<noteq> od94ab_opt_invum 3.3 \<and>
   od94ab_invum 8.0 = ccm89ab_fuv_invum 8.0 \<and> od94ab_invum 8.0 \<noteq> ccm89ab_uv_invum 8.0 \<and>
   gcc09ab_invum 1.1 = od94ab_opt_invum 1.1 \<and> gcc09ab_invum 1.1 \<noteq> ccm89ab_ir_invum 1.1 \<and>
   gcc09ab_invum 3.3 = gcc09ab_uv_invum 3.3 \<and> gcc09ab_invum 3.3 \<noteq> od94ab_opt_invum 3.3 \<and>
   gcc09ab_invum 8.0 = gcc09ab_uv_invum 8.0"
proof -
  have sel: "ccm89ab_invum 1.1 = ccm89ab_opt_invum 1.1" "ccm89ab_invum 3.3 = ccm89ab_uv_invum 3.3"
    "ccm89ab_invum 8.0 = ccm89ab_fuv_invum 8.0"
    "od94ab_invum 1.1 = od94ab_opt_invum 1.1" "od94ab_invum 3.3 = ccm89ab_uv_invum 3.3"
    "od94ab_invum 8.0 = ccm89ab_fuv_invum 8.0"
    "gcc09ab_invum 1.1 = od94ab_opt_invum 1.1" "gcc09ab_invum 3.3 = gcc09ab_uv_invum 3.3"
    "gcc09ab_invum 8.0 = gcc09ab_uv_invum 8.0"
    by (simp_all add: ccm89ab_invum_def od94ab_invum_def gcc09ab_invum_def)
  show ?thesis
    unfolding sel
    using ccm89_opt_is_not_ir od94_opt_is_not_ir ccm89_uv_is_not_opt gcc09_uv_is_not_opt
      ccm89_fuv_is_not_uv
    by (simp only: simp_thms not_False_eq_True)
qed

section \<open>The correction above 5.9 inverse microns\<close>

lemma cubic_corr_pos:
  fixes y p q :: real
  assumes "0 < y" "0 < p" "0 < q"
  shows "0 < p * (y * y) + q * (y * y * y)"
  using assms by (simp add: add_pos_pos)

lemma cubic_corr_pos':
  fixes y p q :: real
  assumes "0 < y" "0 < p" "0 < q"
  shows "0 < p * (y * y) + q * (y * (y * y))"
  using assms by (simp add: add_pos_pos)

lemma pair_add_neq:
  fixes a b ca cb :: real
  assumes "0 < cb"
  shows "(a + ca, b + cb) \<noteq> (a, b)"
  using assms by simp

lemma ccm89ab_uv_invum_split:
  fixes x :: real
  shows
  "(let a0 = 1.752 - 0.316*x - (0.104 / ((x - 4.67)*(x - 4.67) + 0.341));
        b0 = -3.090 + 1.825*x + (1.206 / ((x - 4.62)*(x - 4.62) + 0.263));
        y = x - 5.9
    in (x \<le> 5.9 \<longrightarrow> ccm89ab_uv_invum x = (a0, b0)) \<and>
       (5.9 < x \<longrightarrow>
          ccm89ab_uv_invum x =
            (a0 + (-0.04473*(y*y) - 0.009779*(y*y*y)),
             b0 + (0.2130*(y*y) + 0.1207*(y*y*y))) \<and>
          ccm89ab_uv_invum x \<noteq> (a0, b0)))"
proof (cases "5.9 < x")
  case True
  then have le: "\<not> x \<le> 5.9" by simp
  have pos: "0 < 0.2130*((x - 5.9)*(x - 5.9)) + 0.1207*((x - 5.9)*(x - 5.9)*(x - 5.9))"
    using True by (intro cubic_corr_pos) simp_all
  note ne = pair_add_neq [OF pos]
  show ?thesis
    unfolding ccm89ab_uv_invum_def Let_def
    using True le ne by (simp only: if_True simp_thms)
next
  case False
  then have le: "x \<le> 5.9" by simp
  show ?thesis
    unfolding ccm89ab_uv_invum_def Let_def
    using False le by (simp only: if_False simp_thms)
qed

lemma gcc09ab_uv_invum_split:
  fixes x :: real
  shows
  "(let a0 = 1.896 - 0.372*x - 0.0108 / ((x - 4.57)*(x - 4.57) + 0.0422);
        b0 = -3.503 + 2.057*x + 0.718 / ((x - 4.59)*(x - 4.59) + 0.0530*3.1);
        y = x - 5.9
    in (x \<le> 5.9 \<longrightarrow> gcc09ab_uv_invum x = (a0, b0)) \<and>
       (5.9 < x \<longrightarrow>
          gcc09ab_uv_invum x =
            (a0 + (-0.110*(y*y) - 0.0099*(y*(y*y))),
             b0 + (0.537*(y*y) + 0.0530*(y*(y*y)))) \<and>
          gcc09ab_uv_invum x \<noteq> (a0, b0)))"
proof (cases "5.9 < x")
  case True
  then have le: "\<not> x \<le> 5.9" by simp
  have pos: "0 < 0.537*((x - 5.9)*(x - 5.9)) + 0.0530*((x - 5.9)*((x - 5.9)*(x - 5.9)))"
    using True by (intro cubic_corr_pos') simp_all
  note ne = pair_add_neq [OF pos]
  show ?thesis
    unfolding gcc09ab_uv_invum_def Let_def
    using True le ne by (simp only: if_True simp_thms)
next
  case False
  then have le: "x \<le> 5.9" by simp
  show ?thesis
    unfolding gcc09ab_uv_invum_def Let_def
    using False le by (simp only: if_False simp_thms)
qed

lemmas F99_consts =
  F99_X0_def F99_GAMMA_def F99_C3_def F99_C4_def F99_C5_def F99_X02_def F99_GAMMA2_def

lemma zero_corr: "(k::real) + c * (p * (0 * 0) + q * (0 * 0) * 0) = k"
  by simp

text \<open>
  \<open>_f99uv\<close> tests \<open>x >= 5.9\<close>, but at \<open>x = 5.9\<close> the term it adds is
  \<open>0.41 * (0.5392 * 0 + 0.05644 * 0)\<close>, so its value there is the one without the term.
\<close>

lemma f99uv_split:
  fixes wave a_v r_v :: real
  shows
  "(let x = 10000 / wave;
        c2 = -0.824 + 4.717 / r_v;
        c1 = 2.030 - 3.007 * c2;
        d = x*x / ((x*x - 4.596*4.596) * (x*x - 4.596*4.596) + x*x * (0.99*0.99));
        k0 = c1 + c2 * x + 3.23 * d;
        y = x - 5.9
    in (x \<le> 5.9 \<longrightarrow> f99uv wave a_v r_v = a_v * (1 + k0 / r_v)) \<and>
       (5.9 < x \<longrightarrow>
          f99uv wave a_v r_v =
            a_v * (1 + (k0 + 0.41 * (0.5392 * (y*y) + 0.05644 * (y*y) * y)) / r_v)))"
proof -
  consider (lt) "10000 / wave < 5.9" | (eq) "10000 / wave = 5.9" | (gt) "5.9 < 10000 / wave"
    by linarith
  then show ?thesis
  proof cases
    case lt
    then have f: "\<not> 5.9 \<le> 10000 / wave" "10000 / wave \<le> 5.9" "\<not> 5.9 < 10000 / wave"
      by simp_all
    show ?thesis
      unfolding f99uv_def Let_def F99_consts
      using f by (simp only: if_False simp_thms)
  next
    case eq
    have f: "5.9 \<le> (5.9::real)" "\<not> 5.9 < (5.9::real)" "(5.9::real) - 5.9 = 0"
      by simp_all
    show ?thesis
      unfolding f99uv_def Let_def F99_consts eq
      by (simp only: f if_True simp_thms zero_corr)
  next
    case gt
    then have f: "5.9 \<le> 10000 / wave" "\<not> 10000 / wave \<le> 5.9" by simp_all
    show ?thesis
      unfolding f99uv_def Let_def F99_consts
      using f gt by (simp only: if_True simp_thms)
  qed
qed

text \<open>
  C4. The extra ultraviolet term is there only for a wavenumber strictly above 5.9.
  For \<open>x \<le> 5.9\<close>, so at \<open>x = 5.9\<close> itself, the ultraviolet branch of CCM89 and OD94
  (\<open>ccm89ab_uv_invum\<close>, which OD94 calls too), the one of GCC09 and the analytic
  function of F99 return the value of the formula without the term; for \<open>x > 5.9\<close>
  they return that value plus the cubic term in \<open>y = x - 5.9\<close>, and for the
  \<open>(a, b)\<close> branches the pair then differs from the uncorrected one. F99 takes the
  wavelength, so its wavenumber is \<open>x = 1e4 / wave\<close>.
\<close>

theorem uv_correction_only_above_5_9:
  fixes x wave a_v r_v :: real
  assumes "0 < wave" and "r_v \<noteq> 0"
  shows
  "(let a0 = 1.752 - 0.316*x - (0.104 / ((x - 4.67)*(x - 4.67) + 0.341));
        b0 = -3.090 + 1.825*x + (1.206 / ((x - 4.62)*(x - 4.62) + 0.263));
        y = x - 5.9
    in (x \<le> 5.9 \<longrightarrow> ccm89ab_uv_invum x = (a0, b0)) \<and>
       (5.9 < x \<longrightarrow>
          ccm89ab_uv_invum x =
            (a0 + (-0.04473*(y*y) - 0.009779*(y*y*y)),
             b0 + (0.2130*(y*y) + 0.1207*(y*y*y))) \<and>
          ccm89ab_uv_invum x \<noteq> (a0, b0))) \<and>
   (let a0 = 1.896 - 0.372*x - 0.0108 / ((x - 4.57)*(x - 4.57) + 0.0422);
        b0 = -3.503 + 2.057*x + 0.718 / ((x - 4.59)*(x - 4.59) + 0.0530*3.1);
        y = x - 5.9
    in (x \<le> 5.9 \<longrightarrow> gcc09ab_uv_invum x = (a0, b0)) \<and>
       (5.9 < x \<longrightarrow>
          gcc09ab_uv_invum x =
            (a0 + (-0.110*(y*y) - 0.0099*(y*(y*y))),
             b0 + (0.537*(y*y) + 0.0530*(y*(y*y)))) \<and>
          gcc09ab_uv_invum x \<noteq> (a0, b0))) \<and>
   (let x = 10000 / wave;
        c2 = -0.824 + 4.717 / r_v;
        c1 = 2.030 - 3.007 * c2;
        d = x*x / ((x*x - 4.596*4.596) * (x*x - 4.596*4.596) + x*x * (0.99*0.99));
        k0 = c1 + c2 * x + 3.23 * d;
        y = x - 5.9
    in (x \<le> 5.9 \<longrightarrow> f99uv wave a_v r_v = a_v * (1 + k0 / r_v)) \<and>
       (5.9 < x \<longrightarrow>
          f99uv wave a_v r_v =
            a_v * (1 + (k0 + 0.41 * (0.5392 * (y*y) + 0.05644 * (y*y) * y)) / r_v)))"
  using ccm89ab_uv_invum_split [of x] gcc09ab_uv_invum_split [of x] f99uv_split [of wave r_v a_v]
  by (rule conjI [OF _ conjI])

theorem uv_correction_only_above_5_9_witness:
  "ccm89ab_uv_invum 5.9 =
     (1.752 - 0.316*5.9 - 0.104 / (1.23*1.23 + 0.341),
      -3.090 + 1.825*5.9 + 1.206 / (1.28*1.28 + 0.263)) \<and>
   ccm89ab_uv_invum 5.900001 =
     (1.752 - 0.316*5.900001 - 0.104 / (1.230001*1.230001 + 0.341)
        + (-0.04473*(0.000001*0.000001) - 0.009779*(0.000001*0.000001*0.000001)),
      -3.090 + 1.825*5.900001 + 1.206 / (1.280001*1.280001 + 0.263)
        + (0.2130*(0.000001*0.000001) + 0.1207*(0.000001*0.000001*0.000001))) \<and>
   gcc09ab_uv_invum 5.9 =
     (1.896 - 0.372*5.9 - 0.0108 / (1.33*1.33 + 0.0422),
      -3.503 + 2.057*5.9 + 0.718 / (1.31*1.31 + 0.0530*3.1)) \<and>
   gcc09ab_uv_invum 5.900001 =
     (1.896 - 0.372*5.900001 - 0.0108 / (1.330001*1.330001 + 0.0422)
        + (-0.110*(0.000001*0.000001) - 0.0099*(0.000001*0.000001*0.000001)),
      -3.503 + 2.057*5.900001 + 0.718 / (1.310001*1.310001 + 0.0530*3.1)
        + (0.537*(0.000001*0.000001) + 0.0530*(0.000001*0.000001*0.000001))) \<and>
   f99uv (10000 / 5.9) 1 3.1 =
     1 * (1 + (2.030 - 3.007 * (-0.824 + 4.717 / 3.1) + (-0.824 + 4.717 / 3.1) * 5.9
               + 3.23 * (5.9*5.9 / ((5.9*5.9 - 4.596*4.596) * (5.9*5.9 - 4.596*4.596)
                                     + 5.9*5.9 * (0.99*0.99)))) / 3.1) \<and>
   f99uv (10000 / 5.900001) 1 3.1 =
     1 * (1 + (2.030 - 3.007 * (-0.824 + 4.717 / 3.1) + (-0.824 + 4.717 / 3.1) * 5.900001
               + 3.23 * (5.900001*5.900001
                   / ((5.900001*5.900001 - 4.596*4.596) * (5.900001*5.900001 - 4.596*4.596)
                      + 5.900001*5.900001 * (0.99*0.99)))
               + 0.41 * (0.5392 * (0.000001*0.000001)
                         + 0.05644 * (0.000001*0.000001) * 0.000001)) / 3.1)"
  using uv_correction_only_above_5_9
      [where wave = "10000 / 5.9" and r_v = "3.1" and x = "5.9" and a_v = 1]
    uv_correction_only_above_5_9
      [where wave = "10000 / 5.900001" and r_v = "3.1" and x = "5.900001" and a_v = 1]
  by (simp add: Let_def)

section \<open>The normalisation at 5500 Angstroms\<close>

text \<open>
  C9. CCM89 at the single wavelength 5500 Angstroms, with \<open>A_V = 1\<close> and
  \<open>R_V = 3.1\<close>: the wavenumber \<open>1e4/5500\<close> lies in the optical branch, and the
  one extinction value returned is within 0.05 magnitudes of 1.
\<close>

theorem ccm89_aa_5500_near_one:
  "ccm89ab_invum (10000 / 5500) = ccm89ab_opt_invum (10000 / 5500) \<and>
   length (ccm89_aa [5500] 1 3.1) = 1 \<and>
   \<bar>hd (ccm89_aa [5500] 1 3.1) - 1\<bar> < 0.05"
  by (simp add: ccm89_aa_def ccm89ab_invum_def ccm89ab_opt_invum_def Let_def)

section \<open>The three polynomial laws against each other\<close>

text \<open>On the optical branch the two polynomials are different ones, for instance at 2.\<close>

lemma od94_is_not_ccm89_at_2: "od94_invum [2] 1 3.1 \<noteq> ccm89_invum [2] 1 3.1"
  by (simp add: od94_invum_def ccm89_invum_def od94ab_invum_def ccm89ab_invum_def
      od94ab_opt_invum_def ccm89ab_opt_invum_def Let_def)

text \<open>
  C6. With a nonzero \<open>R_V\<close>, the OD94 value of a sample equals the CCM89 value
  whenever its wavenumber is below 1.1 or at least 3.3 (in the inverse-micron and in
  the Angstrom form), so the two laws can differ on the optical branch only; and
  the GCC09 value equals the OD94 value whenever the wavenumber is in \<open>[1.1, 3.3)\<close>
  (GCC09 has the Angstrom form only).
\<close>

theorem od94_differs_only_in_optical:
  assumes "r_v \<noteq> 0" and "i < length x" and "0 < x ! i"
    and "j < length wave" and "0 < wave ! j"
  shows "(x ! i < 1.1 \<or> 3.3 \<le> x ! i \<longrightarrow>
            od94_invum x a_v r_v ! i = ccm89_invum x a_v r_v ! i) \<and>
         (10000 / wave ! j < 1.1 \<or> 3.3 \<le> 10000 / wave ! j \<longrightarrow>
            od94_aa wave a_v r_v ! j = ccm89_aa wave a_v r_v ! j) \<and>
         (1.1 \<le> 10000 / wave ! j \<and> 10000 / wave ! j < 3.3 \<longrightarrow>
            gcc09_aa wave a_v r_v ! j = od94_aa wave a_v r_v ! j)"
  using assms
  by (auto simp: ccm89_aa_def ccm89_invum_def od94_aa_def od94_invum_def gcc09_aa_def
      ccm89ab_invum_def od94ab_invum_def gcc09ab_invum_def)

theorem od94_differs_only_in_optical_witness:
  "od94_invum [0.5, 2, 3.3, 9] 1 3.1 ! 0 = ccm89_invum [0.5, 2, 3.3, 9] 1 3.1 ! 0 \<and>
   od94_invum [0.5, 2, 3.3, 9] 1 3.1 ! 2 = ccm89_invum [0.5, 2, 3.3, 9] 1 3.1 ! 2 \<and>
   od94_invum [0.5, 2, 3.3, 9] 1 3.1 ! 3 = ccm89_invum [0.5, 2, 3.3, 9] 1 3.1 ! 3 \<and>
   od94_aa [5500, 2000] 1 3.1 ! 1 = ccm89_aa [5500, 2000] 1 3.1 ! 1 \<and>
   gcc09_aa [5500, 2000] 1 3.1 ! 0 = od94_aa [5500, 2000] 1 3.1 ! 0"
proof -
  let ?x = "[0.5, 2, 3.3, 9] :: real list" and ?wave = "[5500, 2000] :: real list"
  have rv: "(3.1::real) \<noteq> 0" by simp
  have x0: "0 < length ?x" "0 < ?x ! 0" "?x ! 0 < 1.1" by simp_all
  have x2: "2 < length ?x" "0 < ?x ! 2" "3.3 \<le> ?x ! 2" by simp_all
  have x3: "3 < length ?x" "0 < ?x ! 3" "3.3 \<le> ?x ! 3" by simp_all
  have w0: "0 < length ?wave" "0 < ?wave ! 0"
    "1.1 \<le> 10000 / ?wave ! 0 \<and> 10000 / ?wave ! 0 < 3.3" by simp_all
  have w1: "1 < length ?wave" "0 < ?wave ! 1" "3.3 \<le> 10000 / ?wave ! 1" by simp_all
  note a = od94_differs_only_in_optical [OF rv x0(1,2) w1(1,2), of 1]
  note b = od94_differs_only_in_optical [OF rv x2(1,2) w0(1,2), of 1]
  note c = od94_differs_only_in_optical [OF rv x3(1,2) w0(1,2), of 1]
  from a x0(3) w1(3) b x2(3) w0(3) c x3(3) show ?thesis
    by blast
qed

section \<open>Angstrom form and inverse-micron form\<close>

text \<open>
  C7. For positive wavelengths and a nonzero \<open>r_v\<close>, the Angstrom form of a law
  returns, element for element, what its inverse-micron form returns on the
  wavenumbers \<open>1e4 / wave\<close>. CCM89 and OD94 are the laws of the module that have
  both forms.
\<close>

theorem aa_is_invum_of_wavenumber:
  assumes "r_v \<noteq> 0" and "\<forall>wi\<in>set wave. 0 < wi"
  shows "ccm89_aa wave a_v r_v = ccm89_invum (map (\<lambda>wi. 10000 / wi) wave) a_v r_v \<and>
         od94_aa wave a_v r_v = od94_invum (map (\<lambda>wi. 10000 / wi) wave) a_v r_v"
  by (simp add: ccm89_aa_def ccm89_invum_def od94_aa_def od94_invum_def o_def)

theorem aa_is_invum_of_wavenumber_witness:
  "ccm89_aa [1000, 2000, 5500, 20000] 1 3.1 =
     ccm89_invum (map (\<lambda>wi. 10000 / wi) [1000, 2000, 5500, 20000]) 1 3.1 \<and>
   od94_aa [1000, 2000, 5500, 20000] 1 3.1 =
     od94_invum (map (\<lambda>wi. 10000 / wi) [1000, 2000, 5500, 20000]) 1 3.1"
  using aa_is_invum_of_wavenumber [where r_v = "3.1" and wave = "[1000, 2000, 5500, 20000]"
      and a_v = 1]
  by simp

section \<open>Scaling with \<open>a_v\<close>\<close>

lemma F99Extinction_call_map:
  "F99Extinction_call self wave a_v =
     map (\<lambda>wi. if wi > 2700
                then a_v / self_r_v self * (self_spline self (10000 / wi) + self_r_v self)
                else f99uv wi a_v (self_r_v self)) wave"
  by (simp add: F99Extinction_call_def Let_def zip_map2 map_zip_map2 o_def zip_same_conv_map)

lemma f99uv_scale: "f99uv wave (c * a_v) r_v = c * f99uv wave a_v r_v"
  by (simp add: f99uv_def Let_def)

text \<open>
  C8. With \<open>A_V = 0\<close> and a nonzero \<open>R_V\<close>, every law returns zeros, one for each
  sample: the two forms of CCM89 and of OD94, GCC09, and an F99 object, whatever its
  spline evaluates to.
\<close>

theorem zero_a_v_gives_zero:
  assumes "r_v \<noteq> 0" and "self_r_v self \<noteq> 0"
    and "\<forall>xi\<in>set x. 0 < xi" and "\<forall>wi\<in>set wave. 0 < wi"
  shows "ccm89_invum x 0 r_v = replicate (length x) 0 \<and>
         ccm89_aa wave 0 r_v = replicate (length wave) 0 \<and>
         od94_invum x 0 r_v = replicate (length x) 0 \<and>
         od94_aa wave 0 r_v = replicate (length wave) 0 \<and>
         gcc09_aa wave 0 r_v = replicate (length wave) 0 \<and>
         F99Extinction_call self wave 0 = replicate (length wave) 0"
  by (simp add: ccm89_aa_def ccm89_invum_def od94_aa_def od94_invum_def gcc09_aa_def
      F99Extinction_call_map f99uv_def Let_def map_replicate_const split_beta cong: if_cong)

theorem zero_a_v_gives_zero_witness:
  "ccm89_invum [0.5, 2, 5, 9] 0 3.1 = [0, 0, 0, 0] \<and>
   ccm89_aa [2000, 5500] 0 3.1 = [0, 0] \<and>
   od94_invum [0.5, 2, 5, 9] 0 3.1 = [0, 0, 0, 0] \<and>
   od94_aa [2000, 5500] 0 3.1 = [0, 0] \<and>
   gcc09_aa [2000, 5500] 0 3.1 = [0, 0] \<and>
   F99Extinction_call \<lparr>self_r_v = 3.1, self_spline = (\<lambda>x. 2 * x - 3)\<rparr> [2000, 5500] 0 = [0, 0]"
  using zero_a_v_gives_zero [where r_v = "3.1" and x = "[0.5, 2, 5, 9]" and wave = "[2000, 5500]"
      and self = "\<lparr>self_r_v = 3.1, self_spline = (\<lambda>x. 2 * x - 3)\<rparr>"]
  by (simp add: numeral_eq_Suc)

section \<open>Homogeneity in \<open>a_v\<close>\<close>

lemma fl_0: "fl 0 = 0"
  by (simp add: fl_def)

text \<open>The value of \<open>fl\<close> at a number whose binary exponent is known.\<close>

lemma fl_eval:
  assumes lo: "2 ^ 52 \<le> \<bar>x\<bar> * 2 ^ n" and hi: "\<bar>x\<bar> * 2 ^ n < 2 ^ 53"
  shows "fl x = of_int (rne (x * 2 ^ n)) / 2 ^ n"
proof -
  from lo have x0: "x \<noteq> 0" by auto
  have p: "2 powr of_int (52 - int n) = (2::real) ^ 52 / 2 ^ n"
    by (simp add: powr_diff powr_realpow)
  have q: "2 powr (of_int (52 - int n) + 1) = (2::real) ^ 53 / 2 ^ n"
    by (simp add: powr_diff powr_add powr_realpow)
  have "\<lfloor>log 2 \<bar>x\<bar>\<rfloor> = 52 - int n"
  proof -
    have "2 powr of_int (52 - int n) \<le> \<bar>x\<bar>"
      unfolding p using lo by (simp add: field_simps)
    moreover have "\<bar>x\<bar> < 2 powr (of_int (52 - int n) + 1)"
      unfolding q using hi by (simp add: field_simps)
    ultimately show ?thesis
      using x0 by (subst floor_log_eq_powr_iff) simp_all
  qed
  then have e: "\<lfloor>log 2 \<bar>x\<bar>\<rfloor> - 52 = - int n" by simp
  have r: "2 powr - real n = 1 / (2::real) ^ n"
    by (simp add: powr_minus powr_realpow divide_inverse)
  show ?thesis
    using x0 by (simp add: fl_def Let_def e r)
qed

lemma fl_literals:
  "fl 1.1 = 4953959590107546 / 2 ^ 52"
  "fl 3.3 = 7430939385161318 / 2 ^ 51"
  "fl 8 = 8"
  "fl 1.073 = 4832362400168542 / 2 ^ 52"
  "fl 13.670 = 7695525863269335 / 2 ^ 49"
proof -
  show "fl 1.1 = 4953959590107546 / 2 ^ 52"
    by (subst fl_eval [where n = 52]) (simp_all add: rne_def Let_def)
  show "fl 3.3 = 7430939385161318 / 2 ^ 51"
    by (subst fl_eval [where n = 51]) (simp_all add: rne_def Let_def)
  show "fl 8 = 8"
    by (subst fl_eval [where n = 49]) (simp_all add: rne_def Let_def)
  show "fl 1.073 = 4832362400168542 / 2 ^ 52"
    by (subst fl_eval [where n = 52]) (simp_all add: rne_def Let_def)
  show "fl 13.670 = 7695525863269335 / 2 ^ 49"
    by (subst fl_eval [where n = 49]) (simp_all add: rne_def Let_def)
qed

text \<open>
  At the wavenumber 8 the far-UV branch runs with \<open>y = y2 = y3 = 0\<close>: the pair is
  the two constant terms, as doubles.
\<close>

lemma ccm89ab_invum_double_8:
  "ccm89ab_invum_double pow 8 = (- (4832362400168542 / 2 ^ 52), 7695525863269335 / 2 ^ 49)"
proof -
  have a: "fl (- (4832362400168542 / 2 ^ 52)) = - (4832362400168542 / 2 ^ 52)"
    by (subst fl_eval [where n = 52]) (simp_all add: rne_def Let_def)
  have b: "fl (7695525863269335 / 2 ^ 49) = 7695525863269335 / 2 ^ 49"
    by (subst fl_eval [where n = 49]) (simp_all add: rne_def Let_def)
  have "ccm89ab_invum_double pow 8 = ccm89ab_fuv_invum_double 8"
    by (simp add: ccm89ab_invum_double_def fl_literals)
  also have "\<dots> = (fl (- fl 1.073), fl (fl 13.670))"
    by (simp add: ccm89ab_fuv_invum_double_def Let_def fadd_def fsub_def fmul_def
        fl_literals(3) fl_0)
  also have "\<dots> = (- (4832362400168542 / 2 ^ 52), 7695525863269335 / 2 ^ 49)"
    unfolding fl_literals a b ..
  finally show ?thesis .
qed

text \<open>The sum \<open>a + b / r_v\<close> at \<open>r_v = 3\<close>, and its products.\<close>

lemma ccm89_double_steps:
  "fdiv (7695525863269335 / 2 ^ 49) 3 = 5130350575512890 / 2 ^ 50"
  "fadd (- (4832362400168542 / 2 ^ 52)) (5130350575512890 / 2 ^ 50) = 7844519950941509 / 2 ^ 51"
  "fmul 5 (7844519950941509 / 2 ^ 51) = 4902824969338443 / 2 ^ 48"
  "fmul (3 * 5) (7844519950941509 / 2 ^ 51) = 7354237454007665 / 2 ^ 47"
  "fmul 3 (4902824969338443 / 2 ^ 48) = 7354237454007664 / 2 ^ 47"
proof -
  show "fdiv (7695525863269335 / 2 ^ 49) 3 = 5130350575512890 / 2 ^ 50"
    unfolding fdiv_def fadd_def fmul_def
    by (subst fl_eval [where n = 50]) (simp_all add: rne_def Let_def)
  show "fadd (- (4832362400168542 / 2 ^ 52)) (5130350575512890 / 2 ^ 50) = 7844519950941509 / 2 ^ 51"
    unfolding fdiv_def fadd_def fmul_def
    by (subst fl_eval [where n = 51]) (simp_all add: rne_def Let_def)
  show "fmul 5 (7844519950941509 / 2 ^ 51) = 4902824969338443 / 2 ^ 48"
    unfolding fdiv_def fadd_def fmul_def
    by (subst fl_eval [where n = 48]) (simp_all add: rne_def Let_def)
  show "fmul (3 * 5) (7844519950941509 / 2 ^ 51) = 7354237454007665 / 2 ^ 47"
    unfolding fdiv_def fadd_def fmul_def
    by (subst fl_eval [where n = 47]) (simp_all add: rne_def Let_def)
  show "fmul 3 (4902824969338443 / 2 ^ 48) = 7354237454007664 / 2 ^ 47"
    unfolding fdiv_def fadd_def fmul_def
    by (subst fl_eval [where n = 47]) (simp_all add: rne_def Let_def)
qed

text \<open>
  With the rounding of doubles the results for \<open>c * a_v\<close> and for \<open>a_v\<close> are not in
  the ratio \<open>c\<close>. CCM89 at the wavenumber 8 with \<open>r_v = 3\<close> returns
  \<open>17.418333333333333\<close> for \<open>a_v = 5\<close> and \<open>52.255\<close> for \<open>a_v = 3 * 5\<close> (both
  written below as a significand over a power of two); three times the former is
  another number, whether the product is the exact one or the rounded one
  (\<open>52.254999999999995\<close>).
\<close>

theorem ccm89_invum_double_not_homogeneous:
  "ccm89_invum_double (powr) [8] 5 3 = [4902824969338443 / 2 ^ 48] \<and>
   ccm89_invum_double (powr) [8] (3 * 5) 3 = [7354237454007665 / 2 ^ 47] \<and>
   ccm89_invum_double (powr) [8] (3 * 5) 3
     \<noteq> map (\<lambda>v. 3 * v) (ccm89_invum_double (powr) [8] 5 3) \<and>
   ccm89_invum_double (powr) [8] (3 * 5) 3
     \<noteq> map (\<lambda>v. fmul 3 v) (ccm89_invum_double (powr) [8] 5 3)"
proof -
  have r5: "ccm89_invum_double (powr) [8] 5 3 = [4902824969338443 / 2 ^ 48]"
    unfolding ccm89_invum_double_def list.map ccm89ab_invum_double_8 prod.case
      ccm89_double_steps ..
  have r15: "ccm89_invum_double (powr) [8] (3 * 5) 3 = [7354237454007665 / 2 ^ 47]"
    unfolding ccm89_invum_double_def list.map ccm89ab_invum_double_8 prod.case
      ccm89_double_steps ..
  have ne: "(7354237454007665 / 2 ^ 47 :: real) \<noteq> 3 * (4902824969338443 / 2 ^ 48)"
    "(7354237454007665 / 2 ^ 47 :: real) \<noteq> 7354237454007664 / 2 ^ 47"
    by simp_all
  show ?thesis
    unfolding r5 r15 list.map ccm89_double_steps using ne by simp
qed

text \<open>
  C10, amended. In exact arithmetic every law is homogeneous in \<open>a_v\<close>: with a
  nonzero \<open>r_v\<close>, evaluating with \<open>c * a_v\<close> returns \<open>c\<close> times what evaluating with
  \<open>a_v\<close> returns, sample by sample, since each sample is \<open>a_v\<close> times a function of
  the wavelength and \<open>r_v\<close> alone. This holds for the two forms of CCM89 and of
  OD94, for GCC09, for an F99 object on both of its branches, for the analytic F99
  function and for the FM07 ultraviolet function. The equation is one of exact
  arithmetic; it is not claimed of the rounded double results.
\<close>

theorem linear_in_a_v:
  assumes "r_v \<noteq> 0" and "self_r_v self \<noteq> 0"
    and "\<forall>xi\<in>set x. 0 < xi" and "\<forall>wi\<in>set wave. 0 < wi"
  shows "ccm89_invum x (c * a_v) r_v = map (\<lambda>v. c * v) (ccm89_invum x a_v r_v) \<and>
         ccm89_aa wave (c * a_v) r_v = map (\<lambda>v. c * v) (ccm89_aa wave a_v r_v) \<and>
         od94_invum x (c * a_v) r_v = map (\<lambda>v. c * v) (od94_invum x a_v r_v) \<and>
         od94_aa wave (c * a_v) r_v = map (\<lambda>v. c * v) (od94_aa wave a_v r_v) \<and>
         gcc09_aa wave (c * a_v) r_v = map (\<lambda>v. c * v) (gcc09_aa wave a_v r_v) \<and>
         F99Extinction_call self wave (c * a_v) =
           map (\<lambda>v. c * v) (F99Extinction_call self wave a_v) \<and>
         map (\<lambda>wi. f99uv wi (c * a_v) r_v) wave = map (\<lambda>wi. c * f99uv wi a_v r_v) wave \<and>
         fm07uv wave (c * a_v) = map (\<lambda>v. c * v) (fm07uv wave a_v)"
  by (simp add: ccm89_aa_def ccm89_invum_def od94_aa_def od94_invum_def gcc09_aa_def
      F99Extinction_call_map f99uv_scale fm07uv_def Let_def split_beta o_def mult.assoc
      cong: if_cong)

theorem linear_in_a_v_witness:
  "ccm89_invum [0.5, 2, 5, 9] (3 * 2) 3.1 = map (\<lambda>v. 3 * v) (ccm89_invum [0.5, 2, 5, 9] 2 3.1) \<and>
   ccm89_aa [2000, 5500] (3 * 2) 3.1 = map (\<lambda>v. 3 * v) (ccm89_aa [2000, 5500] 2 3.1) \<and>
   od94_invum [0.5, 2, 5, 9] (3 * 2) 3.1 = map (\<lambda>v. 3 * v) (od94_invum [0.5, 2, 5, 9] 2 3.1) \<and>
   od94_aa [2000, 5500] (3 * 2) 3.1 = map (\<lambda>v. 3 * v) (od94_aa [2000, 5500] 2 3.1) \<and>
   gcc09_aa [2000, 5500] (3 * 2) 3.1 = map (\<lambda>v. 3 * v) (gcc09_aa [2000, 5500] 2 3.1) \<and>
   F99Extinction_call \<lparr>self_r_v = 3.1, self_spline = (\<lambda>x. 2 * x - 3)\<rparr> [2000, 5500] (3 * 2) =
     map (\<lambda>v. 3 * v)
       (F99Extinction_call \<lparr>self_r_v = 3.1, self_spline = (\<lambda>x. 2 * x - 3)\<rparr> [2000, 5500] 2) \<and>
   fm07uv [2000, 5500] (3 * 2) = map (\<lambda>v. 3 * v) (fm07uv [2000, 5500] 2)"
  using linear_in_a_v [where r_v = "3.1" and x = "[0.5, 2, 5, 9]" and wave = "[2000, 5500]"
      and self = "\<lparr>self_r_v = 3.1, self_spline = (\<lambda>x. 2 * x - 3)\<rparr>" and c = 3 and a_v = 2]
  by simp

section \<open>The boundary at 2700 Angstroms\<close>

text \<open>
  The loop of \<open>__call__\<close> tests \<open>wave_view[i] > 2700.\<close>: a sample at exactly 2700
  fails the test and is overwritten with \<open>_f99uv\<close>. With a spline that evaluates to
  0 at \<open>1e4/2700\<close>, the spline branch would give \<open>(1/3.1) * (0 + 3.1)\<close>; the
  value returned is another one, so the sample at 2700 is not computed from the
  spline.
\<close>

theorem f99_sample_at_2700_not_from_spline:
  "(let self = \<lparr>self_r_v = 3.1, self_spline = (\<lambda>x. 0)\<rparr>
    in F99Extinction_call self [2700] 1
         \<noteq> [1 / self_r_v self * (self_spline self (10000 / 2700) + self_r_v self)])"
  by (simp add: F99Extinction_call_map f99uv_def F99_consts Let_def)

text \<open>
  C1, amended. In \<open>F99Extinction.__call__\<close> the branch test is the strict
  \<open>wave > 2700\<close>, so a sample whose wavelength is exactly 2700 Angstroms belongs
  to the analytic ultraviolet side: its value is \<open>_f99uv(2700, a_v, r_v)\<close>, whatever
  the spline evaluates to, as for every sample with \<open>wave \<le> 2700\<close>. The spline
  branch (the spline value \<open>k\<close> scaled to \<open>(a_v/r_v) * (k + r_v)\<close>) handles the
  samples with a wavelength strictly above 2700 Angstroms.
\<close>

theorem f99_sample_at_2700_is_analytic:
  assumes "self_r_v self \<noteq> 0" and "i < length wave" and "0 < wave ! i"
  shows "(wave ! i = 2700 \<longrightarrow>
            F99Extinction_call self wave a_v ! i = f99uv 2700 a_v (self_r_v self)) \<and>
         (wave ! i \<le> 2700 \<longrightarrow>
            F99Extinction_call self wave a_v ! i = f99uv (wave ! i) a_v (self_r_v self)) \<and>
         (2700 < wave ! i \<longrightarrow>
            F99Extinction_call self wave a_v ! i =
              a_v / self_r_v self * (self_spline self (10000 / wave ! i) + self_r_v self))"
  using assms by (simp add: F99Extinction_call_map)

theorem f99_sample_at_2700_is_analytic_witness:
  "F99Extinction_call \<lparr>self_r_v = 3.1, self_spline = (\<lambda>x. 0)\<rparr> [2700, 2000, 3000] 1 ! 0
     = f99uv 2700 1 3.1 \<and>
   F99Extinction_call \<lparr>self_r_v = 3.1, self_spline = (\<lambda>x. 0)\<rparr> [2700, 2000, 3000] 1 ! 1
     = f99uv 2000 1 3.1 \<and>
   F99Extinction_call \<lparr>self_r_v = 3.1, self_spline = (\<lambda>x. 0)\<rparr> [2700, 2000, 3000] 1 ! 2
     = 1 / 3.1 * (0 + 3.1)"
  using
    f99_sample_at_2700_is_analytic [where self = "\<lparr>self_r_v = 3.1, self_spline = (\<lambda>x. 0)\<rparr>"
      and wave = "[2700, 2000, 3000]" and i = 0 and a_v = 1]
    f99_sample_at_2700_is_analytic [where self = "\<lparr>self_r_v = 3.1, self_spline = (\<lambda>x. 0)\<rparr>"
      and wave = "[2700, 2000, 3000]" and i = 1 and a_v = 1]
    f99_sample_at_2700_is_analytic [where self = "\<lparr>self_r_v = 3.1, self_spline = (\<lambda>x. 0)\<rparr>"
      and wave = "[2700, 2000, 3000]" and i = 2 and a_v = 1]
  by simp

section \<open>Continuity across 2700 Angstroms\<close>

lemma XKNOTS_7: "XKNOTS ! 7 = 10000 / 2700"
  by (simp add: XKNOTS_def)

lemma XKNOTS_length: "length XKNOTS = 9"
  by (simp add: XKNOTS_def)

text \<open>The analytic function away from the far-UV term.\<close>

lemma f99uv_below_C5:
  assumes "10000 / wave < 5.9"
  shows "f99uv wave a_v r_v =
     a_v * (1 + (2.030 - 3.007 * (-0.824 + 4.717 / r_v) + (-0.824 + 4.717 / r_v) * (10000 / wave)
       + 3.23 * ((10000 / wave) * (10000 / wave) /
                   (((10000 / wave) * (10000 / wave) - 4.596 * 4.596) * ((10000 / wave) * (10000 / wave) - 4.596 * 4.596)
                    + (10000 / wave) * (10000 / wave) * (0.99 * 0.99)))) / r_v)"
proof -
  from assms have f: "\<not> 5.9 \<le> 10000 / wave" by simp
  show ?thesis
    unfolding f99uv_def Let_def F99_consts
    using f by (simp only: if_False)
qed

lemma f99kknots_7:
  assumes "f99kknots XKNOTS r_v = Inr kknots"
  shows "kknots ! 7 =
     2.030 - 3.007 * (-0.824 + 4.717 / r_v) + (-0.824 + 4.717 / r_v) * (10000 / 2700)
       + 3.23 * ((10000 / 2700) * (10000 / 2700) /
                   (((10000 / 2700) * (10000 / 2700) - 4.596 * 4.596) * ((10000 / 2700) * (10000 / 2700) - 4.596 * 4.596)
                    + (10000 / 2700) * (10000 / 2700) * (0.99 * 0.99)))"
proof -
  have "[7..<9] = [7, 8::nat]" by (simp add: upt_rec)
  with assms have "kknots ! 7 = (let x2 = XKNOTS ! 7 * XKNOTS ! 7;
                            y = (x2 - F99_X02);
                            d = x2 / (y * y + x2 * F99_GAMMA2)
                        in 2.030 - 3.007 * (-0.824 + 4.717 / r_v) + (-0.824 + 4.717 / r_v) * XKNOTS ! 7 + F99_C3 * d)"
    by (auto simp: f99kknots_def Let_def XKNOTS_length nth_append)
  then show ?thesis
    unfolding Let_def F99_consts XKNOTS_7 .
qed

lemma spline_branch_at_knot_7:
  assumes "f99kknots XKNOTS r_v = Inr kknots" and "r_v \<noteq> 0"
  shows "a_v / r_v * (kknots ! 7 + r_v) = f99uv 2700 a_v r_v"
proof -
  have lt: "10000 / 2700 < (5.9::real)" by simp
  have "a_v / r_v * (kknots ! 7 + r_v) = a_v * (1 + kknots ! 7 / r_v)"
    using assms(2) by (simp add: field_simps)
  also have "\<dots> = f99uv 2700 a_v r_v"
    unfolding f99uv_below_C5 [OF lt] f99kknots_7 [OF assms(1)] ..
  finally show ?thesis .
qed

lemma f99uv_isCont_2700:
  assumes "r_v \<noteq> 0"
  shows "isCont (\<lambda>w. f99uv w a_v r_v) 2700"
proof -
  let ?g = "\<lambda>wave. a_v * (1 + (2.030 - 3.007 * (-0.824 + 4.717 / r_v) + (-0.824 + 4.717 / r_v) * (10000 / wave)
       + 3.23 * ((10000 / wave) * (10000 / wave) /
                   (((10000 / wave) * (10000 / wave) - 4.596 * 4.596) * ((10000 / wave) * (10000 / wave) - 4.596 * 4.596)
                    + (10000 / wave) * (10000 / wave) * (0.99 * 0.99)))) / r_v)"
  have same: "f99uv w a_v r_v = ?g w" if "w \<in> {2000<..}" for w :: real
  proof -
    from that have "2000 < w" by simp
    then have "10000 / w < 5" by (simp add: field_simps)
    then have "10000 / w < 5.9" by simp
    then show ?thesis by (rule f99uv_below_C5)
  qed
  have "open {2000::real<..}" "(2700::real) \<in> {2000<..}" by simp_all
  with same have ev: "\<forall>\<^sub>F w in nhds (2700::real). f99uv w a_v r_v = ?g w"
    unfolding eventually_nhds by (intro exI [of _ "{2000<..}"]) simp
  have "isCont ?g 2700"
    using assms by (intro continuous_intros) simp_all
  then show ?thesis
    by (simp only: isCont_cong [OF ev])
qed

lemma wavenumber_at_left:
  "filterlim (\<lambda>w::real. 10000 / w) (at_left (10000 / 2700)) (at_right 2700)"
  unfolding filterlim_at
proof
  have "\<forall>\<^sub>F w in at_right (2700::real). w \<in> {2700<..<2701}"
    by (rule eventually_at_right_real) simp
  then show "\<forall>\<^sub>F w in at_right (2700::real). 10000 / w \<in> {..<10000 / 2700} \<and> 10000 / w \<noteq> 10000 / 2700"
  proof (rule eventually_mono)
    fix w :: real
    assume "w \<in> {2700<..<2701}"
    then have "2700 < w" by simp
    then have "10000 / w < 10000 / 2700"
      by (intro divide_strict_left_mono) simp_all
    then show "10000 / w \<in> {..<10000 / 2700} \<and> 10000 / w \<noteq> 10000 / 2700" by simp
  qed
next
  show "((\<lambda>w::real. 10000 / w) \<longlongrightarrow> 10000 / 2700) (at_right 2700)"
    by (intro tendsto_intros) simp_all
qed

lemma F99_sample_isCont_2700:
  assumes kk: "f99kknots XKNOTS r_v = Inr kknots" and rv: "r_v \<noteq> 0"
    and interp: "spl (XKNOTS ! 7) = kknots ! 7"
    and cont: "continuous (at_left (XKNOTS ! 7)) spl"
  shows "isCont (\<lambda>w. if w > 2700 then a_v / r_v * (spl (10000 / w) + r_v) else f99uv w a_v r_v) 2700"
proof -
  have "(spl \<longlongrightarrow> spl (10000 / 2700)) (at_left (10000 / 2700))"
    using cont unfolding XKNOTS_7 continuous_within .
  then have "((\<lambda>w. spl (10000 / w)) \<longlongrightarrow> spl (10000 / 2700)) (at_right 2700)"
    using wavenumber_at_left by (rule filterlim_compose)
  then have "((\<lambda>w. a_v / r_v * (spl (10000 / w) + r_v)) \<longlongrightarrow> a_v / r_v * (spl (10000 / 2700) + r_v)) (at_right 2700)"
    by (intro tendsto_intros)
  moreover have "a_v / r_v * (spl (10000 / 2700) + r_v) = f99uv 2700 a_v r_v"
    using spline_branch_at_knot_7 [OF kk rv] interp unfolding XKNOTS_7 by simp
  ultimately have right: "((\<lambda>w. a_v / r_v * (spl (10000 / w) + r_v)) \<longlongrightarrow> f99uv 2700 a_v r_v) (at_right 2700)"
    by simp
  have left: "continuous (at_left 2700) (\<lambda>w. f99uv w a_v r_v)"
    using f99uv_isCont_2700 [OF rv, of a_v] by (simp add: continuous_at_split)
  have "isCont (\<lambda>w. if w \<le> 2700 then f99uv w a_v r_v else a_v / r_v * (spl (10000 / w) + r_v)) 2700"
    using left right by (rule isCont_If_ge)
  moreover have "(\<lambda>w::real. if w \<le> 2700 then f99uv w a_v r_v else a_v / r_v * (spl (10000 / w) + r_v))
      = (\<lambda>w. if w > 2700 then a_v / r_v * (spl (10000 / w) + r_v) else f99uv w a_v r_v)"
    by (auto simp: fun_eq_iff)
  ultimately show ?thesis by simp
qed

lemma isCont_two_points:
  fixes f :: "real \<Rightarrow> real"
  assumes "isCont f a" and "0 < e"
  shows "\<exists>d>0. \<forall>u v. \<bar>u - a\<bar> < d \<and> \<bar>v - a\<bar> < d \<longrightarrow> \<bar>f u - f v\<bar> < e"
proof -
  from assms have "0 < e / 2" by simp
  moreover from assms(1) have "f \<midarrow>a\<rightarrow> f a" by (simp add: isCont_def)
  ultimately obtain d where d: "0 < d"
    and near: "\<And>x. x \<noteq> a \<and> norm (x - a) < d \<Longrightarrow> norm (f x - f a) < e / 2"
    unfolding LIM_eq by blast
  have close: "\<bar>f x - f a\<bar> < e / 2" if "\<bar>x - a\<bar> < d" for x
  proof (cases "x = a")
    case True
    with \<open>0 < e / 2\<close> show ?thesis by simp
  next
    case False
    with that near [of x] show ?thesis by simp
  qed
  have "\<bar>f u - f v\<bar> < e" if "\<bar>u - a\<bar> < d" "\<bar>v - a\<bar> < d" for u v
    using close [OF that(1)] close [OF that(2)] by linarith
  with d show ?thesis by blast
qed

lemma f99kknots_XKNOTS: "\<exists>kknots. f99kknots XKNOTS r_v = Inr kknots"
  by (simp add: f99kknots_def XKNOTS_length Let_def)

lemma F99Extinction_init_XKNOTS:
  assumes "f99kknots XKNOTS r_v = Inr kknots"
  shows "F99Extinction_init splmake r_v = Inr \<lparr>self_r_v = r_v, self_spline = splmake XKNOTS kknots\<rparr>"
  using assms by (simp add: F99Extinction_init_def)

text \<open>
  C2. The output of an F99 object is continuous across 2700 Angstroms: for every
  \<open>r_v \<noteq> 0\<close> and every \<open>a_v\<close> there is a distance \<open>\<delta>\<close> such that any two
  samples of a wavelength grid that lie within \<open>\<delta>\<close> of 2700, in particular one
  just above (spline branch) and one just below or at 2700 (analytic branch), get
  values that differ by less than 0.001 magnitudes. The reason is knot 7: its
  \<open>k\<close>-value is computed with the rational formula of \<open>_f99uv\<close> at
  \<open>x = 1e4/2700\<close>, where the far-UV term is absent, so the rescaled knot value is
  \<open>_f99uv(2700, a_v, r_v)\<close>. What is used of the spline, which \<open>scipy\<close> makes, is
  that it passes through knot 7 and is continuous there from the side of the
  smaller wavenumbers.
\<close>

theorem f99_continuous_across_2700:
  assumes init: "F99Extinction_init splmake r_v = Inr self"
    and rv: "r_v \<noteq> 0"
    and kk: "f99kknots XKNOTS r_v = Inr kknots"
    and interp: "splmake XKNOTS kknots (XKNOTS ! 7) = kknots ! 7"
    and cont: "continuous (at_left (XKNOTS ! 7)) (splmake XKNOTS kknots)"
  shows "\<exists>\<delta>>0. \<forall>wave i j.
           i < length wave \<and> j < length wave \<and>
           \<bar>wave ! i - 2700\<bar> < \<delta> \<and> \<bar>wave ! j - 2700\<bar> < \<delta> \<longrightarrow>
           \<bar>F99Extinction_call self wave a_v ! i - F99Extinction_call self wave a_v ! j\<bar> < 0.001"
proof -
  from init kk have self: "self_r_v self = r_v" "self_spline self = splmake XKNOTS kknots"
    by (auto simp: F99Extinction_init_def)
  let ?f = "\<lambda>w. if w > 2700 then a_v / r_v * (splmake XKNOTS kknots (10000 / w) + r_v) else f99uv w a_v r_v"
  have "isCont ?f 2700"
    using kk rv interp cont by (rule F99_sample_isCont_2700)
  then obtain \<delta> where \<delta>: "0 < \<delta>"
    and near: "\<And>u v. \<bar>u - 2700\<bar> < \<delta> \<and> \<bar>v - 2700\<bar> < \<delta> \<Longrightarrow> \<bar>?f u - ?f v\<bar> < 0.001"
    using isCont_two_points [where f = ?f and a = 2700 and e = "0.001"] by auto
  have "\<bar>F99Extinction_call self wave a_v ! i - F99Extinction_call self wave a_v ! j\<bar> < 0.001"
    if "i < length wave" "j < length wave" "\<bar>wave ! i - 2700\<bar> < \<delta>" "\<bar>wave ! j - 2700\<bar> < \<delta>"
    for wave i j
  proof -
    have "F99Extinction_call self wave a_v ! i = ?f (wave ! i)"
      "F99Extinction_call self wave a_v ! j = ?f (wave ! j)"
      using that(1,2) by (simp_all add: F99Extinction_call_map self)
    with near [of "wave ! i" "wave ! j"] that(3,4) show ?thesis by simp
  qed
  with \<delta> show ?thesis by blast
qed

theorem f99_continuous_across_2700_witness:
  "(let splmake = (\<lambda>xk yk x. yk ! 6 + (yk ! 7 - yk ! 6) * (x - xk ! 6) / (xk ! 7 - xk ! 6))
    in \<exists>self kknots.
         F99Extinction_init splmake 3.1 = Inr self \<and>
         f99kknots XKNOTS 3.1 = Inr kknots \<and>
         splmake XKNOTS kknots (XKNOTS ! 7) = kknots ! 7 \<and>
         continuous (at_left (XKNOTS ! 7)) (splmake XKNOTS kknots) \<and>
         (\<exists>\<delta>>0. \<forall>wave i j.
            i < length wave \<and> j < length wave \<and>
            \<bar>wave ! i - 2700\<bar> < \<delta> \<and> \<bar>wave ! j - 2700\<bar> < \<delta> \<longrightarrow>
            \<bar>F99Extinction_call self wave 1 ! i - F99Extinction_call self wave 1 ! j\<bar> < 0.001))"
proof -
  let ?splmake = "\<lambda>(xk::real list) (yk::real list) x. yk ! 6 + (yk ! 7 - yk ! 6) * (x - xk ! 6) / (xk ! 7 - xk ! 6)"
  obtain kknots where kk: "f99kknots XKNOTS 3.1 = Inr kknots"
    using f99kknots_XKNOTS by blast
  let ?self = "\<lparr>self_r_v = 3.1, self_spline = ?splmake XKNOTS kknots\<rparr>"
  have init: "F99Extinction_init ?splmake 3.1 = Inr ?self"
    using kk by (rule F99Extinction_init_XKNOTS)
  have rv: "(3.1::real) \<noteq> 0" by simp
  have interp: "?splmake XKNOTS kknots (XKNOTS ! 7) = kknots ! 7"
    by (simp add: XKNOTS_def diff_divide_distrib)
  have cont: "continuous (at_left (XKNOTS ! 7)) (?splmake XKNOTS kknots)"
    by (intro continuous_intros) (simp add: XKNOTS_def)
  note f99_continuous_across_2700 [OF init rv kk interp cont, of 1]
  with init kk interp cont show ?thesis
    unfolding Let_def by blast
qed

end
